theory Spec2Isabelle
  imports Complex_Main "HOL-Library.AList"
begin

section \<open>Python values\<close>

text \<open>
  The bot handles JSON documents (market records, settings, exchange replies) as
  dynamically typed Python values. A dict is an association list read with \<open>map_of\<close>;
  the floats inside a document are modelled as reals (finite values, exact arithmetic).
\<close>

datatype pyval =
    PNone
  | PBool bool
  | PInt int
  | PFloat real
  | PStr string
  | PList "pyval list"
  | PDict "(string \<times> pyval) list"

type_synonym pydict = "(string \<times> pyval) list"

text \<open>An exception object as the order executor inspects it: the optional attribute
  \<open>error_message\<close>, the \<open>args\<close> tuple and the text \<open>str(e)\<close>.\<close>

datatype exc = Exc (error_message: "pyval option") (args: "pyval list") (shown: string)

datatype pyerr = AttributeError | TypeError | ValueError | IndexError | KeyError | Raised exc

text \<open>
  Library functions of Python that are not part of the repository are parameters:
  \<open>float(s)\<close> and \<open>int(s)\<close> on a string (None where Python raises ValueError),
  \<open>str(v)\<close> on a value that is not a string, and \<open>datetime.fromisoformat\<close>, which
  yields the instant in microseconds since the epoch, a timezone-naive result being read
  as UTC (None where Python raises).
\<close>

record builtins =
  float_of_str :: "string \<Rightarrow> real option"
  int_of_str :: "string \<Rightarrow> int option"
  repr :: "pyval \<Rightarrow> string"
  fromisoformat :: "string \<Rightarrow> int option"

fun truthy :: "pyval \<Rightarrow> bool" where
  "truthy PNone = False"
| "truthy (PBool b) = b"
| "truthy (PInt i) = (i \<noteq> 0)"
| "truthy (PFloat r) = (r \<noteq> 0)"
| "truthy (PStr s) = (s \<noteq> [])"
| "truthy (PList xs) = (xs \<noteq> [])"
| "truthy (PDict d) = (d \<noteq> [])"

definition py_or :: "pyval \<Rightarrow> pyval \<Rightarrow> pyval" where
  "py_or a b = (if truthy a then a else b)"

definition dict_get :: "pydict \<Rightarrow> string \<Rightarrow> pyval" where
  "dict_get d k = (case map_of d k of None \<Rightarrow> PNone | Some v \<Rightarrow> v)"

definition dict_get_default :: "pydict \<Rightarrow> string \<Rightarrow> pyval \<Rightarrow> pyval" where
  "dict_get_default d k dflt = (case map_of d k of None \<Rightarrow> dflt | Some v \<Rightarrow> v)"

text \<open>\<open>v.get(k)\<close> on an arbitrary value: only a dict has the method.\<close>

definition py_get :: "pyval \<Rightarrow> string \<Rightarrow> pyerr + pyval" where
  "py_get v k = (case v of PDict d \<Rightarrow> Inr (dict_get d k) | _ \<Rightarrow> Inl AttributeError)"

definition py_get_default :: "pyval \<Rightarrow> string \<Rightarrow> pyval \<Rightarrow> pyerr + pyval" where
  "py_get_default v k dflt =
     (case v of PDict d \<Rightarrow> Inr (dict_get_default d k dflt) | _ \<Rightarrow> Inl AttributeError)"

text \<open>\<open>isinstance(v, (int, float))\<close> with the numeric value; a bool is an int.\<close>

fun num_of :: "pyval \<Rightarrow> real option" where
  "num_of (PBool b) = Some (if b then 1 else 0)"
| "num_of (PInt i) = Some (real_of_int i)"
| "num_of (PFloat r) = Some r"
| "num_of _ = None"

fun py_float :: "builtins \<Rightarrow> pyval \<Rightarrow> pyerr + real" where
  "py_float B (PBool b) = Inr (if b then 1 else 0)"
| "py_float B (PInt i) = Inr (real_of_int i)"
| "py_float B (PFloat r) = Inr r"
| "py_float B (PStr s) = (case float_of_str B s of None \<Rightarrow> Inl ValueError | Some r \<Rightarrow> Inr r)"
| "py_float B _ = Inl TypeError"

text \<open>\<open>int(v)\<close>: a float is truncated towards zero.\<close>

fun py_int :: "builtins \<Rightarrow> pyval \<Rightarrow> pyerr + int" where
  "py_int B (PBool b) = Inr (if b then 1 else 0)"
| "py_int B (PInt i) = Inr i"
| "py_int B (PFloat r) = Inr (if 0 \<le> r then \<lfloor>r\<rfloor> else \<lceil>r\<rceil>)"
| "py_int B (PStr s) = (case int_of_str B s of None \<Rightarrow> Inl ValueError | Some i \<Rightarrow> Inr i)"
| "py_int B _ = Inl TypeError"

definition py_str :: "builtins \<Rightarrow> pyval \<Rightarrow> string" where
  "py_str B v = (case v of PStr s \<Rightarrow> s | _ \<Rightarrow> repr B v)"

text \<open>Decimal rendering of an integer, as \<open>str(n)\<close> and an f-string do.\<close>

definition digit_char :: "nat \<Rightarrow> char" where
  "digit_char d = ''0123456789'' ! d"

function str_of_nat :: "nat \<Rightarrow> string" where
  "str_of_nat n = (if n < 10 then [digit_char n] else str_of_nat (n div 10) @ [digit_char (n mod 10)])"
  by pat_completeness auto
termination
  by (relation "measure id") auto

declare str_of_nat.simps [simp del]

definition str_of_int :: "int \<Rightarrow> string" where
  "str_of_int i = (if i < 0 then CHR ''-'' # str_of_nat (nat (- i)) else str_of_nat (nat i))"

text \<open>Indexing, iteration and \<open>len\<close> on an arbitrary value. A JSON object has string
  keys only, so an integer index into a dict is a KeyError.\<close>

definition py_index :: "pyval \<Rightarrow> nat \<Rightarrow> pyerr + pyval" where
  "py_index v i =
     (case v of
        PList xs \<Rightarrow> (if i < length xs then Inr (xs ! i) else Inl IndexError)
      | PStr s \<Rightarrow> (if i < length s then Inr (PStr [s ! i]) else Inl IndexError)
      | PDict d \<Rightarrow> Inl KeyError
      | _ \<Rightarrow> Inl TypeError)"

definition py_iter :: "pyval \<Rightarrow> pyerr + pyval list" where
  "py_iter v =
     (case v of
        PList xs \<Rightarrow> Inr xs
      | PStr s \<Rightarrow> Inr (map (\<lambda>c. PStr [c]) s)
      | PDict d \<Rightarrow> Inr (map (\<lambda>kv. PStr (fst kv)) d)
      | _ \<Rightarrow> Inl TypeError)"

definition py_len :: "pyval \<Rightarrow> pyerr + nat" where
  "py_len v =
     (case v of
        PList xs \<Rightarrow> Inr (length xs)
      | PStr s \<Rightarrow> Inr (length s)
      | PDict d \<Rightarrow> Inr (length d)
      | _ \<Rightarrow> Inl TypeError)"

text \<open>String methods, on ASCII text.\<close>

definition lower_char :: "char \<Rightarrow> char" where
  "lower_char c = (let n = (of_char c :: nat) in if 65 \<le> n \<and> n \<le> 90 then char_of (n + 32) else c)"

definition upper_char :: "char \<Rightarrow> char" where
  "upper_char c = (let n = (of_char c :: nat) in if 97 \<le> n \<and> n \<le> 122 then char_of (n - 32) else c)"

definition py_lower :: "string \<Rightarrow> string" where
  "py_lower s = map lower_char s"

definition py_upper :: "string \<Rightarrow> string" where
  "py_upper s = map upper_char s"

definition is_space :: "char \<Rightarrow> bool" where
  "is_space c = (let n = (of_char c :: nat) in (9 \<le> n \<and> n \<le> 13) \<or> (28 \<le> n \<and> n \<le> 32))"

definition is_digit :: "char \<Rightarrow> bool" where
  "is_digit c = (let n = (of_char c :: nat) in 48 \<le> n \<and> n \<le> 57)"

definition py_strip :: "string \<Rightarrow> string" where
  "py_strip s = rev (dropWhile is_space (rev (dropWhile is_space s)))"

definition rstrip_slash :: "string \<Rightarrow> string" where
  "rstrip_slash s = rev (dropWhile (\<lambda>c. c = CHR ''/'') (rev s))"

definition endswith_Z :: "string \<Rightarrow> bool" where
  "endswith_Z s = (s \<noteq> [] \<and> last s = CHR ''Z'')"

definition replace_Z :: "string \<Rightarrow> string" where
  "replace_Z s = concat (map (\<lambda>c. if c = CHR ''Z'' then ''+00:00'' else [c]) s)"

text \<open>\<open>next((i for i, o in enumerate(xs) if P(o)), None)\<close> and
  \<open>next((o for o in xs if P(o)), None)\<close>.\<close>

fun find_index :: "('a \<Rightarrow> bool) \<Rightarrow> 'a list \<Rightarrow> nat option" where
  "find_index P [] = None"
| "find_index P (x # xs) = (if P x then Some 0 else map_option Suc (find_index P xs))"

text \<open>Concrete parameters for evaluating the model on examples.\<close>

definition plain_builtins :: builtins where
  "plain_builtins =
     \<lparr>float_of_str = (\<lambda>s. None), int_of_str = (\<lambda>s. None), repr = (\<lambda>v. ''<obj>''),
      fromisoformat = (\<lambda>s. None)\<rparr>"

text \<open>
  The price threshold is a float that reaches the scanner unchecked: src/config/env.py reads
  it with \<open>float(os.getenv("MAX_PRICE_NO_TOKENS", "0.01"))\<close>, which accepts the text
  \<open>nan\<close>. A threshold is therefore a number or NaN, and every comparison with NaN is
  false: \<open>le_float x t\<close> is \<open>x <= t\<close> and \<open>gt_float x t\<close> is \<open>x > t\<close>.
\<close>

datatype pyfloat = Num real | NaN

fun le_float :: "real \<Rightarrow> pyfloat \<Rightarrow> bool" where
  "le_float x (Num t) = (x \<le> t)"
| "le_float x NaN = False"

fun gt_float :: "real \<Rightarrow> pyfloat \<Rightarrow> bool" where
  "gt_float x (Num t) = (x > t)"
| "gt_float x NaN = False"

section \<open>Configuration\<close>

text \<open>The fields of \<open>Config\<close> (src/config/env.py) that the modelled functions read.\<close>

record config =
  max_price_no_tokens :: real
  max_order_size :: int
  auto_order :: bool
  sell_target_price :: real
  gamma_endpoint :: "string option"
  host :: string

definition example_config :: config where
  "example_config =
     \<lparr>max_price_no_tokens = 1 / 100, max_order_size = 100, auto_order = False,
      sell_target_price = 5 / 100, gamma_endpoint = Some ''https://gamma-api.polymarket.com'',
      host = ''https://clob.polymarket.com''\<rparr>"

section \<open>Settings store (src/utils/settings_store.py)\<close>

text \<open>
  The store is the JSON object of settings.json, keyed by \<open>str(chat_id)\<close>; a function
  that writes the file returns the new object next to its result.
\<close>

definition default_settings :: "config \<Rightarrow> pydict" where
  "default_settings cfg =
     [(''maxPriceNoTokens'', PFloat (max_price_no_tokens cfg)),
      (''maxOrderSize'', PInt (max_order_size cfg)),
      (''sellTargetPrice'', PFloat (sell_target_price cfg)),
      (''autoPlaceOrders'', PBool (auto_order cfg))]"

definition increment_size_for_chat ::
  "builtins \<Rightarrow> config \<Rightarrow> pydict \<Rightarrow> int \<Rightarrow> int \<Rightarrow> pyerr + (pydict \<times> pydict)" where
  "increment_size_for_chat B cfg all_settings chat_id delta =
     (let key = str_of_int chat_id;
          current = py_or (dict_get all_settings key) (PDict (default_settings cfg))
      in case py_get_default current ''maxOrderSize'' (PInt 1) of
           Inl e \<Rightarrow> Inl e
         | Inr stored \<Rightarrow>
            (case py_int B stored of
               Inl e \<Rightarrow> Inl e
             | Inr n \<Rightarrow>
                (case current of
                   PDict cur \<Rightarrow>
                     (let size = max 1 (n + delta);
                          next_settings = AList.update ''maxOrderSize'' (PInt size) cur
                      in Inr (next_settings, AList.update key (PDict next_settings) all_settings))
                 | _ \<Rightarrow> Inl TypeError)))"

text \<open>The stored order size of a chat is an integer, or the chat has no settings yet.\<close>

definition size_is_int :: "config \<Rightarrow> pydict \<Rightarrow> int \<Rightarrow> bool" where
  "size_is_int cfg all_settings chat_id =
     (case py_or (dict_get all_settings (str_of_int chat_id)) (PDict (default_settings cfg)) of
        PDict cur \<Rightarrow> (case map_of cur ''maxOrderSize'' of None \<Rightarrow> True | Some (PInt i) \<Rightarrow> True | Some _ \<Rightarrow> False)
      | _ \<Rightarrow> False)"

section \<open>Market analysis (src/services/polymarket_service.py)\<close>

subsection \<open>Active-market filter\<close>

text \<open>
  The two nested parsing attempts of \<open>_is_active_market\<close>. The first attempt rewrites
  \<open>end_str\<close> before it calls \<open>fromisoformat\<close>, so the second attempt works on the
  rewritten text. None is the branch that returns True because nothing parsed.
\<close>

definition parse_end :: "builtins \<Rightarrow> string \<Rightarrow> int option" where
  "parse_end B end_str =
     (let s1 = (if endswith_Z end_str then butlast end_str @ ''+00:00''
                else if CHR ''+'' \<notin> set end_str \<and> CHR ''-'' \<in> set end_str then end_str @ ''+00:00''
                else end_str)
      in case fromisoformat B s1 of
           Some e \<Rightarrow> Some e
         | None \<Rightarrow> fromisoformat B (replace_Z s1))"

text \<open>The clock is read once the expiry has parsed; \<open>now\<close> is that reading, in
  microseconds since the epoch.\<close>

definition is_active_market :: "builtins \<Rightarrow> int \<Rightarrow> pydict \<Rightarrow> bool" where
  "is_active_market B now m =
     (if m = [] then False
      else if dict_get m ''active'' = PBool False then False
      else if dict_get m ''closed'' = PBool True then False
      else if dict_get m ''archived'' = PBool True then False
      else if dict_get m ''acceptingOrders'' = PBool False then False
      else
        (let end_raw = py_or (dict_get m ''endDate'') (dict_get m ''endDateIso'')
         in if truthy end_raw
            then (case parse_end B (py_strip (py_str B end_raw)) of
                    None \<Rightarrow> True
                  | Some end \<Rightarrow> (if end < now then False else True))
            else True))"

subsection \<open>Price derivation\<close>

text \<open>\<open>str(v or "").strip().lower() == name\<close>\<close>

definition is_outcome :: "builtins \<Rightarrow> string \<Rightarrow> pyval \<Rightarrow> bool" where
  "is_outcome B name v = (py_lower (py_strip (py_str B (py_or v (PStr [])))) = name)"

text \<open>\<open>float(v) if v is not None else None\<close>\<close>

definition opt_float :: "builtins \<Rightarrow> pyval \<Rightarrow> pyerr + real option" where
  "opt_float B v =
     (if v = PNone then Inr None
      else case py_float B v of Inl e \<Rightarrow> Inl e | Inr r \<Rightarrow> Inr (Some r))"

text \<open>The fallback of \<open>_derive_no_bid\<close> to the \<open>outcomePrices\<close> array.\<close>

definition outcome_prices_fallback :: "builtins \<Rightarrow> pydict \<Rightarrow> pyval \<Rightarrow> pyerr + real option" where
  "outcome_prices_fallback B m outcomes =
     (let prices = py_or (dict_get m ''outcomePrices'') (PList []) in
      case py_iter outcomes of
        Inl e \<Rightarrow> Inl e
      | Inr os \<Rightarrow>
         (case find_index (is_outcome B ''no'') os of
            None \<Rightarrow> Inr None
          | Some idx \<Rightarrow>
             (case py_len prices of
                Inl e \<Rightarrow> Inl e
              | Inr n \<Rightarrow>
                 if idx < n
                 then (case py_index prices idx of
                         Inl e \<Rightarrow> Inl e
                       | Inr pv \<Rightarrow>
                          (case py_float B pv of
                             Inl e \<Rightarrow> Inl e
                           | Inr p \<Rightarrow> Inr (if p \<ge> 0 then Some p else None)))
                 else Inr None)))"

text \<open>The body of the \<open>try\<close> of \<open>_derive_no_bid\<close>: \<open>Inl\<close> is a raised exception.\<close>

definition derive_no_bid_body :: "builtins \<Rightarrow> pydict \<Rightarrow> pyerr + real option" where
  "derive_no_bid_body B m =
     (let outcomes = py_or (dict_get m ''outcomes'') (PList []) in
      case opt_float B (dict_get m ''bestBid'') of
        Inl e \<Rightarrow> Inl e
      | Inr best_bid \<Rightarrow>
         (case opt_float B (dict_get m ''bestAsk'') of
            Inl e \<Rightarrow> Inl e
          | Inr best_ask \<Rightarrow>
             (case (best_bid, best_ask) of
                (Some bid, Some ask) \<Rightarrow>
                  (if truthy outcomes
                   then (case py_index outcomes 0 of
                           Inl e \<Rightarrow> Inl e
                         | Inr o0 \<Rightarrow>
                            if is_outcome B ''yes'' o0 then Inr (Some (1 - ask))
                            else if is_outcome B ''no'' o0 then Inr (Some bid)
                            else outcome_prices_fallback B m outcomes)
                   else outcome_prices_fallback B m outcomes)
              | _ \<Rightarrow> outcome_prices_fallback B m outcomes)))"

definition derive_no_bid :: "builtins \<Rightarrow> pydict \<Rightarrow> real option" where
  "derive_no_bid B m = (case derive_no_bid_body B m of Inl e \<Rightarrow> None | Inr r \<Rightarrow> r)"

subsection \<open>Opportunity construction\<close>

definition analyze_market_no :: "builtins \<Rightarrow> int \<Rightarrow> pydict \<Rightarrow> pyfloat \<Rightarrow> pydict option" where
  "analyze_market_no B now m max_price =
     (if \<not> is_active_market B now m then None
      else case derive_no_bid B m of
             None \<Rightarrow> None
           | Some no_price \<Rightarrow>
              if no_price \<le> 0 then None
              else if le_float no_price max_price
              then Some
                [(''marketId'',
                    py_or (py_or (py_or (py_or (dict_get m ''id'') (dict_get m ''market_id''))
                      (dict_get m ''condition_id'')) (dict_get m ''conditionId'')) (dict_get m ''slug'')),
                 (''question'', dict_get m ''question''),
                 (''noPrice'', PFloat no_price),
                 (''volume24h'',
                    py_or (py_or (py_or (dict_get m ''volume'') (dict_get m ''volume_24h''))
                      (dict_get m ''volumeNum'')) (PInt 0)),
                 (''url'',
                    if truthy (dict_get m ''slug'')
                    then PStr (''https://polymarket.com/event/'' @ py_str B (dict_get m ''slug''))
                    else PNone),
                 (''eventSlug'', dict_get m ''eventSlug'')]
              else None)"

section \<open>External calls\<close>

text \<open>
  Every call that leaves the process is a \<open>request\<close>: an HTTP GET (client timeout, URL,
  query parameters) answered by the decoded JSON body, and the two calls into the exchange
  SDK of src/services/order_service.py. The outside world is a state of an arbitrary type
  \<open>'w\<close>; it answers a request with a value or an exception and moves on. A run threads
  the world together with the list of the requests made so far, oldest first. The clock is
  a reading of the world.
\<close>

datatype request =
    HttpGet nat string pydict
  | GetMarket pyval
  | PlaceLimitOrder pyval string real int

record 'w env =
  respond :: "request \<Rightarrow> 'w \<Rightarrow> (exc + pyval) \<times> 'w"
  clock :: "'w \<Rightarrow> int"

type_synonym 'w net = "'w \<times> request list"

definition perform :: "'w env \<Rightarrow> request \<Rightarrow> 'w net \<Rightarrow> (exc + pyval) \<times> 'w net" where
  "perform E q s =
     (case respond E q (fst s) of (r, w') \<Rightarrow> (r, (w', snd s @ [q])))"

definition gamma_base :: "config \<Rightarrow> string" where
  "gamma_base cfg = rstrip_slash (case gamma_endpoint cfg of None \<Rightarrow> [] | Some e \<Rightarrow> e)"

section \<open>Catalog fetchers\<close>

subsection \<open>Secondary catalog: \<open>fetch_markets\<close>\<close>

definition fetch_markets :: "'w env \<Rightarrow> config \<Rightarrow> 'w net \<Rightarrow> (exc + pyval) \<times> 'w net" where
  "fetch_markets E cfg s =
     (case perform E (HttpGet 20 (rstrip_slash (host cfg) @ ''/markets'') [(''limit'', PInt 1000)]) s of
        (Inl e, s') \<Rightarrow> (Inl e, s')
      | (Inr data, s') \<Rightarrow>
         (case data of
            PDict d \<Rightarrow> (case map_of d ''markets'' of Some ms \<Rightarrow> (Inr ms, s') | None \<Rightarrow> (Inr (PList []), s'))
          | PList xs \<Rightarrow> (Inr data, s')
          | _ \<Rightarrow> (Inr (PList []), s')))"

subsection \<open>Primary catalog: public search\<close>

text \<open>The inner loop of \<open>fetch_public_search_page\<close>: \<open>mk["eventSlug"] = ev.get("slug")\<close>
  needs \<open>mk\<close> to be a dict.\<close>

fun tag_markets :: "pyval \<Rightarrow> pyval list \<Rightarrow> pyerr + pydict list" where
  "tag_markets slug [] = Inr []"
| "tag_markets slug (mk # mks) =
     (case mk of
        PDict d \<Rightarrow>
          (case tag_markets slug mks of
             Inl e \<Rightarrow> Inl e
           | Inr rest \<Rightarrow> Inr (AList.update ''eventSlug'' slug d # rest))
      | _ \<Rightarrow> Inl TypeError)"

fun collect_events :: "pyval list \<Rightarrow> pyerr + pydict list" where
  "collect_events [] = Inr []"
| "collect_events (ev # evs) =
     (case py_get ev ''markets'' of
        Inl e \<Rightarrow> Inl e
      | Inr mv \<Rightarrow>
         (case py_iter (py_or mv (PList [])) of
            Inl e \<Rightarrow> Inl e
          | Inr mks \<Rightarrow>
             (case py_get ev ''slug'' of
                Inl e \<Rightarrow> Inl e
              | Inr slug \<Rightarrow>
                 (case tag_markets slug mks of
                    Inl e \<Rightarrow> Inl e
                  | Inr tagged \<Rightarrow>
                     (case collect_events evs of
                        Inl e \<Rightarrow> Inl e
                      | Inr rest \<Rightarrow> Inr (tagged @ rest))))))"

definition parse_search_page :: "pyval \<Rightarrow> pyerr + (pydict list \<times> bool)" where
  "parse_search_page data =
     (case py_get data ''events'' of
        Inl e \<Rightarrow> Inl e
      | Inr ev \<Rightarrow>
         (case py_iter (py_or ev (PList [])) of
            Inl e \<Rightarrow> Inl e
          | Inr evs \<Rightarrow>
             (case collect_events evs of
                Inl e \<Rightarrow> Inl e
              | Inr markets \<Rightarrow>
                 (case py_get data ''pagination'' of
                    Inl e \<Rightarrow> Inl e
                  | Inr pg \<Rightarrow>
                     (case py_get (py_or pg (PDict [])) ''hasMore'' of
                        Inl e \<Rightarrow> Inl e
                      | Inr hm \<Rightarrow> Inr (markets, truthy hm))))))"

definition search_params :: "string \<Rightarrow> nat \<Rightarrow> nat \<Rightarrow> pydict" where
  "search_params query page limit_per_type =
     [(''q'', PStr query), (''page'', PInt (int page)), (''limit_per_type'', PInt (int limit_per_type)),
      (''events_status'', PStr ''active''), (''ascending'', PBool False), (''optimized'', PBool True)]"

text \<open>The attempts of one page, one per timeout; a failed attempt moves to the next, and
  the page is empty when all have failed.\<close>

fun search_attempts ::
  "'w env \<Rightarrow> string \<Rightarrow> pydict \<Rightarrow> nat list \<Rightarrow> 'w net \<Rightarrow> (pydict list \<times> bool) \<times> 'w net" where
  "search_attempts E url params [] s = (([], False), s)"
| "search_attempts E url params (timeout # rest) s =
     (case perform E (HttpGet timeout url params) s of
        (Inl e, s') \<Rightarrow> search_attempts E url params rest s'
      | (Inr data, s') \<Rightarrow>
         (case parse_search_page data of
            Inl e \<Rightarrow> search_attempts E url params rest s'
          | Inr page \<Rightarrow> (page, s')))"

definition fetch_public_search_page ::
  "'w env \<Rightarrow> config \<Rightarrow> string \<Rightarrow> nat \<Rightarrow> nat \<Rightarrow> 'w net \<Rightarrow> (pydict list \<times> bool) \<times> 'w net" where
  "fetch_public_search_page E cfg query page limit_per_type s =
     search_attempts E (gamma_base cfg @ ''/public-search'')
       (search_params query page limit_per_type) [10, 20, 30] s"

text \<open>The \<open>while has_more and page <= max_pages\<close> loop of
  \<open>fetch_all_markets_public_search\<close>.\<close>

function fetch_all_loop ::
  "'w env \<Rightarrow> config \<Rightarrow> string \<Rightarrow> nat \<Rightarrow> nat \<Rightarrow> nat \<Rightarrow> bool \<Rightarrow> pydict list \<Rightarrow> 'w net
     \<Rightarrow> pydict list \<times> 'w net" where
  "fetch_all_loop E cfg query page_limit max_pages page has_more all_markets s =
     (if has_more \<and> page \<le> max_pages
      then (let r = fetch_public_search_page E cfg query page page_limit s
            in fetch_all_loop E cfg query page_limit max_pages (page + 1) (snd (fst r))
                 (all_markets @ fst (fst r)) (snd r))
      else (all_markets, s))"
  by pat_completeness auto
termination
  by (relation "measure (\<lambda>(E, cfg, query, page_limit, max_pages, page, has_more, all_markets, s).
        max_pages + 1 - page)") auto

declare fetch_all_loop.simps [simp del]

definition fetch_all_markets_public_search :: "'w env \<Rightarrow> config \<Rightarrow> 'w net \<Rightarrow> pydict list \<times> 'w net" where
  "fetch_all_markets_public_search E cfg s = fetch_all_loop E cfg ''*'' 100 50 1 True [] s"

section \<open>Token resolution: \<open>resolve_no_token_id\<close>\<close>

text \<open>The lambda \<open>get_id\<close>.\<close>

definition get_id :: "pyval \<Rightarrow> pyval" where
  "get_id t =
     (case t of
        PDict d \<Rightarrow> py_or (py_or (py_or (dict_get d ''token_id'') (dict_get d ''asset_id''))
                     (dict_get d ''tokenId'')) (dict_get d ''id'')
      | _ \<Rightarrow> PNone)"

text \<open>
  The scan of a response for the NO token. \<open>Inr (Some tid)\<close> is the \<open>return str(tid)\<close>,
  \<open>Inr None\<close> the end of the loops, \<open>Inl\<close> an exception raised on the way.
\<close>

fun scan_tokens :: "builtins \<Rightarrow> (pyval \<Rightarrow> pyval) \<Rightarrow> pyval list \<Rightarrow> pyerr + string option" where
  "scan_tokens B getid [] = Inr None"
| "scan_tokens B getid (t # ts) =
     (case py_get t ''outcome'' of
        Inl e \<Rightarrow> Inl e
      | Inr oc \<Rightarrow>
         if py_upper (py_str B oc) = ''NO'' \<and> truthy (getid t)
         then Inr (Some (py_str B (getid t)))
         else scan_tokens B getid ts)"

fun scan_markets :: "builtins \<Rightarrow> (pyval \<Rightarrow> pyval) \<Rightarrow> pyval list \<Rightarrow> pyerr + string option" where
  "scan_markets B getid [] = Inr None"
| "scan_markets B getid (mk # mks) =
     (case py_get mk ''tokens'' of
        Inl e \<Rightarrow> Inl e
      | Inr tv \<Rightarrow>
         (case py_iter (py_or tv (PList [])) of
            Inl e \<Rightarrow> Inl e
          | Inr ts \<Rightarrow>
             (case scan_tokens B getid ts of
                Inl e \<Rightarrow> Inl e
              | Inr (Some tid) \<Rightarrow> Inr (Some tid)
              | Inr None \<Rightarrow> scan_markets B getid mks)))"

text \<open>\<open>for mk in data.get("markets") or []\<close>\<close>

definition scan_event :: "builtins \<Rightarrow> (pyval \<Rightarrow> pyval) \<Rightarrow> pyval \<Rightarrow> pyerr + string option" where
  "scan_event B getid data =
     (case py_get data ''markets'' of
        Inl e \<Rightarrow> Inl e
      | Inr mv \<Rightarrow>
         (case py_iter (py_or mv (PList [])) of
            Inl e \<Rightarrow> Inl e
          | Inr mks \<Rightarrow> scan_markets B getid mks))"

text \<open>\<open>arr = data if isinstance(data, list) else [data] if data else []\<close>\<close>

definition as_list :: "pyval \<Rightarrow> pyval list" where
  "as_list data = (case data of PList xs \<Rightarrow> xs | _ \<Rightarrow> if truthy data then [data] else [])"

definition scan_array :: "builtins \<Rightarrow> (pyval \<Rightarrow> pyval) \<Rightarrow> pyval \<Rightarrow> pyerr + string option" where
  "scan_array B getid data = scan_markets B getid (as_list data)"

text \<open>One strategy: the request and the scan of its answer inside one \<open>try\<close>, whose
  \<open>except\<close> falls through.\<close>

definition lookup ::
  "'w env \<Rightarrow> request \<Rightarrow> (pyval \<Rightarrow> pyerr + string option) \<Rightarrow> 'w net \<Rightarrow> string option \<times> 'w net" where
  "lookup E q scan s =
     (case perform E q s of
        (Inl e, s') \<Rightarrow> (None, s')
      | (Inr data, s') \<Rightarrow>
         (case scan data of
            Inr (Some tid) \<Rightarrow> (Some tid, s')
          | _ \<Rightarrow> (None, s')))"

definition resolve_no_token_id ::
  "'w env \<Rightarrow> builtins \<Rightarrow> config \<Rightarrow> pydict \<Rightarrow> 'w net \<Rightarrow> string option \<times> 'w net" where
  "resolve_no_token_id E B cfg market s =
     (let base = gamma_base cfg in
      if base = [] then (None, s)
      else
       (let ev_slug = py_or (dict_get market ''eventSlug'') (dict_get market ''event_slug'');
            r1 = (if truthy ev_slug
                  then lookup E (HttpGet 20 (base @ ''/events/slug/'' @ py_str B ev_slug) [])
                         (scan_event B get_id) s
                  else (None, s))
        in case fst r1 of
             Some tid \<Rightarrow> (Some tid, snd r1)
           | None \<Rightarrow>
              (let slug = dict_get market ''slug'';
                   r2 = (if truthy slug
                         then lookup E (HttpGet 20 (base @ ''/markets/slug/'' @ py_str B slug) [])
                                (scan_array B get_id) (snd r1)
                         else (None, snd r1))
               in case fst r2 of
                    Some tid \<Rightarrow> (Some tid, snd r2)
                  | None \<Rightarrow>
                     (let cond = py_or (dict_get market ''condition_id'') (dict_get market ''conditionId'')
                      in if truthy cond
                         then lookup E (HttpGet 20 (base @ ''/markets'')
                                  [(''condition_id'', cond), (''closed'', PBool False), (''limit'', PInt 5)])
                                (scan_array B get_id) (snd r2)
                         else (None, snd r2)))))"

section \<open>Opportunity aggregation: \<open>find_eligible_markets\<close>\<close>

subsection \<open>Primary path (Gamma public search)\<close>

text \<open>The loop over the markets of the primary catalog. The resolver is called inside a
  \<open>try\<close>; it returns a non-empty text or nothing.\<close>

fun gamma_loop ::
  "'w env \<Rightarrow> builtins \<Rightarrow> config \<Rightarrow> pyfloat \<Rightarrow> pydict list \<Rightarrow> 'w net \<Rightarrow> pydict list \<times> 'w net" where
  "gamma_loop E B cfg max_price [] s = ([], s)"
| "gamma_loop E B cfg max_price (m # ms) s =
     (case analyze_market_no B (clock E (fst s)) m max_price of
        None \<Rightarrow> gamma_loop E B cfg max_price ms s
      | Some opp \<Rightarrow>
         (let r = resolve_no_token_id E B cfg m s;
              opp1 = (case fst r of
                        Some tid \<Rightarrow> if tid \<noteq> [] then AList.update ''noTokenId'' (PStr tid) opp else opp
                      | None \<Rightarrow> opp);
              opp2 = (if truthy (dict_get m ''slug'')
                      then AList.update ''slug'' (dict_get m ''slug'') opp1 else opp1);
              rest = gamma_loop E B cfg max_price ms (snd r)
          in (opp2 # fst rest, snd rest)))"

definition gamma_path ::
  "'w env \<Rightarrow> builtins \<Rightarrow> config \<Rightarrow> pyfloat \<Rightarrow> 'w net \<Rightarrow> pydict list \<times> 'w net" where
  "gamma_path E B cfg max_price s =
     (let r = fetch_all_markets_public_search E cfg s
      in if fst r \<noteq> [] then gamma_loop E B cfg max_price (fst r) (snd r) else ([], snd r))"

subsection \<open>Fallback path (CLOB markets endpoint)\<close>

text \<open>\<open>next((t for t in xs if str(t.get(key, '')).lower() == name), None)\<close>\<close>

fun find_named :: "builtins \<Rightarrow> string \<Rightarrow> string \<Rightarrow> pyval list \<Rightarrow> pyerr + pyval option" where
  "find_named B key name [] = Inr None"
| "find_named B key name (t # ts) =
     (case py_get_default t key (PStr []) of
        Inl e \<Rightarrow> Inl e
      | Inr v \<Rightarrow> if py_lower (py_str B v) = name then Inr (Some t) else find_named B key name ts)"

text \<open>The first of the price fields of the NO token that holds a positive number.\<close>

fun first_positive :: "pyval \<Rightarrow> string list \<Rightarrow> pyerr + real option" where
  "first_positive t [] = Inr None"
| "first_positive t (k # ks) =
     (case py_get t k of
        Inl e \<Rightarrow> Inl e
      | Inr v \<Rightarrow>
         (case num_of v of
            Some r \<Rightarrow> if r > 0 then Inr (Some r) else first_positive t ks
          | None \<Rightarrow> first_positive t ks))"

text \<open>\<open>float((ov or {}).get(key) or 0)\<close>, None where it raises.\<close>

definition float_field :: "builtins \<Rightarrow> pyval \<Rightarrow> string \<Rightarrow> real option" where
  "float_field B ov key =
     (case py_get (py_or ov (PDict [])) key of
        Inl e \<Rightarrow> None
      | Inr v \<Rightarrow> (case py_float B (py_or v (PInt 0)) of Inl e \<Rightarrow> None | Inr r \<Rightarrow> Some r))"

text \<open>The price of case 2 (an \<open>outcomes\<close> array of objects). \<open>best_ask\<close> of the NO outcome
  is computed by the source and never used.\<close>

definition outcomes_price :: "builtins \<Rightarrow> pyval \<Rightarrow> pyval option \<Rightarrow> bool \<Rightarrow> real option" where
  "outcomes_price B outcomes no_outcome yes_is_first =
     (let best_bid = (case float_field B (case no_outcome of None \<Rightarrow> PNone | Some ov \<Rightarrow> ov) ''bestBid'' of
                        None \<Rightarrow> 0 | Some r \<Rightarrow> r)
      in if best_bid > 0 then Some best_bid
         else if yes_is_first
         then (case py_index outcomes 0 of
                 Inl e \<Rightarrow> None
               | Inr o0 \<Rightarrow>
                  (case float_field B o0 ''bestAsk'' of
                     None \<Rightarrow> None
                   | Some yes_best_ask \<Rightarrow> if yes_best_ask > 0 then Some (1 - yes_best_ask) else None))
         else None)"

text \<open>The filter and the record at the end of the loop body; None is \<open>continue\<close>.\<close>

definition clob_opportunity :: "pydict \<Rightarrow> real option \<Rightarrow> pyval \<Rightarrow> pyfloat \<Rightarrow> pydict option" where
  "clob_opportunity m price token_id max_price =
     (case price of
        None \<Rightarrow> None
      | Some p \<Rightarrow>
         if p \<le> 0 \<or> gt_float p max_price then None
         else Some
           [(''marketId'', py_or (py_or (dict_get m ''condition_id'') (dict_get m ''conditionId'')) (dict_get m ''id'')),
            (''question'', py_or (py_or (dict_get m ''question'') (dict_get m ''title'')) (PStr ''Unknown'')),
            (''noPrice'', PFloat p),
            (''noTokenId'', token_id),
            (''volume24h'', py_or (dict_get m ''volume'') (PInt 0)),
            (''url'', PNone)])"

text \<open>Case 1 of the loop body: the record carries a \<open>tokens\<close> array. No request is made.\<close>

definition clob_tokens_case :: "builtins \<Rightarrow> pydict \<Rightarrow> pyval \<Rightarrow> pyfloat \<Rightarrow> pyerr + pydict option" where
  "clob_tokens_case B m tokens max_price =
     (case py_iter tokens of
        Inl e \<Rightarrow> Inl e
      | Inr ts \<Rightarrow>
         (case find_named B ''outcome'' ''no'' ts of
            Inl e \<Rightarrow> Inl e
          | Inr None \<Rightarrow> Inr None
          | Inr (Some no_token) \<Rightarrow>
             if \<not> truthy no_token then Inr None
             else
              (case first_positive no_token
                      [''price'', ''lastPrice'', ''last_price'', ''bestOffer'', ''best_offer'', ''bestBid''] of
                 Inl e \<Rightarrow> Inl e
               | Inr price \<Rightarrow>
                  (case py_get no_token ''token_id'' of
                     Inl e \<Rightarrow> Inl e
                   | Inr t1 \<Rightarrow>
                      (case py_get no_token ''tokenId'' of
                         Inl e \<Rightarrow> Inl e
                       | Inr t2 \<Rightarrow> Inr (clob_opportunity m price (py_or t1 t2) max_price))))))"

text \<open>Case 2 of the loop body: an \<open>outcomes\<close> array and no tokens; the token id is
  asked of the resolver, whatever the price.\<close>

definition clob_outcomes_case ::
  "'w env \<Rightarrow> builtins \<Rightarrow> config \<Rightarrow> pydict \<Rightarrow> pyval \<Rightarrow> pyfloat \<Rightarrow> 'w net
     \<Rightarrow> (pyerr + pydict option) \<times> 'w net" where
  "clob_outcomes_case E B cfg m outcomes max_price s =
     (case py_iter outcomes of
        Inl e \<Rightarrow> (Inl e, s)
      | Inr os \<Rightarrow>
         (case find_named B ''name'' ''no'' os of
            Inl e \<Rightarrow> (Inl e, s)
          | Inr no_outcome \<Rightarrow>
             (case py_index outcomes 0 of
                Inl e \<Rightarrow> (Inl e, s)
              | Inr o0 \<Rightarrow>
                 (case py_get_default o0 ''name'' (PStr []) of
                    Inl e \<Rightarrow> (Inl e, s)
                  | Inr nm \<Rightarrow>
                     (let yes_is_first = (py_lower (py_str B nm) = ''yes'');
                          price = outcomes_price B outcomes no_outcome yes_is_first;
                          r = resolve_no_token_id E B cfg m s;
                          token_id = (case fst r of
                                        Some tid \<Rightarrow> if tid \<noteq> [] then PStr tid else PNone
                                      | None \<Rightarrow> PNone)
                      in (Inr (clob_opportunity m price token_id max_price), snd r))))))"

text \<open>One iteration of the loop over the CLOB markets. \<open>Inl\<close> is an exception that leaves
  the loop (and makes the fallback return the empty list).\<close>

definition clob_record ::
  "'w env \<Rightarrow> builtins \<Rightarrow> config \<Rightarrow> pyfloat \<Rightarrow> pyval \<Rightarrow> 'w net \<Rightarrow> (pyerr + pydict option) \<times> 'w net" where
  "clob_record E B cfg max_price mv s =
     (case mv of
        PDict m \<Rightarrow>
          if dict_get m ''closed'' = PBool True \<or> dict_get m ''archived'' = PBool True then (Inr None, s)
          else
           (let tokens = py_or (dict_get m ''tokens'') (PList []);
                outcomes = py_or (dict_get m ''outcomes'') (PList [])
            in if truthy tokens then (clob_tokens_case B m tokens max_price, s)
               else if truthy outcomes then clob_outcomes_case E B cfg m outcomes max_price s
               else (Inr (clob_opportunity m None PNone max_price), s))
      | _ \<Rightarrow> (Inl AttributeError, s))"

fun clob_loop ::
  "'w env \<Rightarrow> builtins \<Rightarrow> config \<Rightarrow> pyfloat \<Rightarrow> pyval list \<Rightarrow> 'w net \<Rightarrow> (pyerr + pydict list) \<times> 'w net" where
  "clob_loop E B cfg max_price [] s = (Inr [], s)"
| "clob_loop E B cfg max_price (mv # mvs) s =
     (case clob_record E B cfg max_price mv s of
        (Inl e, s') \<Rightarrow> (Inl e, s')
      | (Inr r, s') \<Rightarrow>
         (case clob_loop E B cfg max_price mvs s' of
            (Inl e, s'') \<Rightarrow> (Inl e, s'')
          | (Inr rest, s'') \<Rightarrow> (Inr ((case r of None \<Rightarrow> [] | Some opp \<Rightarrow> [opp]) @ rest), s'')))"

text \<open>The fallback: everything is inside one \<open>try\<close> whose \<open>except\<close> returns the empty
  list. \<open>len(clob_markets)\<close> is evaluated for the log line before the loop.\<close>

definition clob_fallback ::
  "'w env \<Rightarrow> builtins \<Rightarrow> config \<Rightarrow> pyfloat \<Rightarrow> 'w net \<Rightarrow> pydict list \<times> 'w net" where
  "clob_fallback E B cfg max_price s =
     (case fetch_markets E cfg s of
        (Inl e, s1) \<Rightarrow> ([], s1)
      | (Inr clob_markets, s1) \<Rightarrow>
         (case py_len clob_markets of
            Inl e \<Rightarrow> ([], s1)
          | Inr n \<Rightarrow>
             (case py_iter clob_markets of
                Inl e \<Rightarrow> ([], s1)
              | Inr mvs \<Rightarrow>
                 (case clob_loop E B cfg max_price mvs s1 of
                    (Inl e, s2) \<Rightarrow> ([], s2)
                  | (Inr eligible, s2) \<Rightarrow> (eligible, s2)))))"

definition find_eligible_markets ::
  "'w env \<Rightarrow> builtins \<Rightarrow> config \<Rightarrow> pyfloat \<Rightarrow> 'w net \<Rightarrow> pydict list \<times> 'w net" where
  "find_eligible_markets E B cfg max_price s =
     (let r = gamma_path E B cfg max_price s
      in if fst r \<noteq> [] then r else clob_fallback E B cfg max_price (snd r))"

section \<open>Statements of the specification\<close>

text \<open>
  The tradability condition in the words of the specification (section 4.3): the four flags,
  and an expiry that is absent, unparsable or strictly in the future. The expiry is the
  timestamp that the record carries: it is parsable when \<open>fromisoformat\<close> reads the
  text of the record as it stands, and it then denotes the instant that \<open>fromisoformat\<close>
  returns. The condition is compared with \<open>is_active_market\<close> below.
\<close>

definition spec_tradable :: "builtins \<Rightarrow> int \<Rightarrow> pydict \<Rightarrow> bool" where
  "spec_tradable B now m =
     (dict_get m ''active'' \<noteq> PBool False \<and>
      dict_get m ''closed'' \<noteq> PBool True \<and>
      dict_get m ''archived'' \<noteq> PBool True \<and>
      dict_get m ''acceptingOrders'' \<noteq> PBool False \<and>
      (let end_raw = py_or (dict_get m ''endDate'') (dict_get m ''endDateIso'')
       in if truthy end_raw
          then (case fromisoformat B (py_strip (py_str B end_raw)) of None \<Rightarrow> True | Some end \<Rightarrow> now < end)
          else True))"

text \<open>The price invariant of an opportunity record.\<close>

definition price_in_range :: "pyfloat \<Rightarrow> pydict \<Rightarrow> bool" where
  "price_in_range max_price opp =
     (case dict_get opp ''noPrice'' of PFloat p \<Rightarrow> 0 < p \<and> le_float p max_price | _ \<Rightarrow> False)"

text \<open>
  The resolver as a cascade: a list of lookups, each a request with the scan of its answer,
  tried in order until one yields an id. \<open>strategies\<close> lists the lookups of
  \<open>resolve_no_token_id\<close> for a record: by event slug, by market slug, by condition id,
  each present only when its key is truthy, and none without a Gamma endpoint.
\<close>

fun try_in_order ::
  "'w env \<Rightarrow> (request \<times> (pyval \<Rightarrow> pyerr + string option)) list \<Rightarrow> 'w net \<Rightarrow> string option \<times> 'w net" where
  "try_in_order E [] s = (None, s)"
| "try_in_order E (qs # rest) s =
     (case lookup E (fst qs) (snd qs) s of
        (Some tid, s') \<Rightarrow> (Some tid, s')
      | (None, s') \<Rightarrow> try_in_order E rest s')"

definition strategies ::
  "builtins \<Rightarrow> config \<Rightarrow> pydict \<Rightarrow> (request \<times> (pyval \<Rightarrow> pyerr + string option)) list" where
  "strategies B cfg market =
     (let base = gamma_base cfg;
          ev_slug = py_or (dict_get market ''eventSlug'') (dict_get market ''event_slug'');
          slug = dict_get market ''slug'';
          cond = py_or (dict_get market ''condition_id'') (dict_get market ''conditionId'')
      in if base = [] then []
         else (if truthy ev_slug
               then [(HttpGet 20 (base @ ''/events/slug/'' @ py_str B ev_slug) [], scan_event B get_id)]
               else []) @
              (if truthy slug
               then [(HttpGet 20 (base @ ''/markets/slug/'' @ py_str B slug) [], scan_array B get_id)]
               else []) @
              (if truthy cond
               then [(HttpGet 20 (base @ ''/markets'')
                        [(''condition_id'', cond), (''closed'', PBool False), (''limit'', PInt 5)],
                      scan_array B get_id)]
               else []))"

text \<open>
  The request of \<open>fetch_markets\<close>, which opens the fallback path, and the statement that a
  run from \<open>s\<close> to \<open>s'\<close> has only added requests to the list and none of them is \<open>Q\<close>.
\<close>

definition clob_catalog_request :: "config \<Rightarrow> request" where
  "clob_catalog_request cfg = HttpGet 20 (rstrip_slash (host cfg) @ ''/markets'') [(''limit'', PInt 1000)]"

definition quiet :: "request \<Rightarrow> 'w net \<Rightarrow> 'w net \<Rightarrow> bool" where
  "quiet Q s s' =
     (take (length (snd s)) (snd s') = snd s \<and> count_list (drop (length (snd s)) (snd s')) Q = 0)"

section \<open>Example inputs\<close>

text \<open>
  A parser that reads two timestamps as \<open>datetime.fromisoformat\<close> does: midnight of
  2030-01-01 in UTC, and midnight of 2020-01-01 at the offset -05:00, which is 05:00 UTC of
  that day (1577854800 seconds after the epoch). It rejects every other text, among them
  \<open>2020-01-01T00:00:00-05:00+00:00\<close>, a text with two offsets, which Python rejects too.
\<close>

definition iso_builtins :: builtins where
  "iso_builtins =
     \<lparr>float_of_str = (\<lambda>s. None), int_of_str = (\<lambda>s. None), repr = (\<lambda>v. ''<obj>''),
      fromisoformat = (\<lambda>s. if s = ''2030-01-01T00:00:00+00:00'' then Some 1893456000000000
                           else if s = ''2020-01-01T00:00:00-05:00'' then Some 1577854800000000
                           else None)\<rparr>"

definition expiring_market :: pydict where
  "expiring_market = [(''question'', PStr ''X''), (''endDate'', PStr ''2030-01-01T00:00:00+00:00'')]"

text \<open>A record whose expiry carries a negative UTC offset.\<close>

definition offset_market :: pydict where
  "offset_market = [(''question'', PStr ''X''), (''endDate'', PStr ''2020-01-01T00:00:00-05:00'')]"

text \<open>A record whose best ask is above 1.\<close>

definition overpriced_market :: pydict where
  "overpriced_market =
     [(''question'', PStr ''X''), (''outcomes'', PList [PStr ''Yes'', PStr ''No'']),
      (''bestBid'', PFloat (1 / 2)), (''bestAsk'', PFloat (3 / 2))]"

text \<open>The market of the end-to-end scenario of the specification, as the public search
  returns it, and a world that answers the search with it and fails every other request.\<close>

definition cheap_market :: pydict where
  "cheap_market =
     [(''question'', PStr ''X''), (''outcomes'', PList [PStr ''Yes'', PStr ''No'']),
      (''bestBid'', PFloat (4 / 1000)), (''bestAsk'', PFloat (995 / 1000)), (''active'', PBool True)]"

definition search_body :: pyval where
  "search_body =
     PDict [(''events'', PList [PDict [(''slug'', PStr ''ev''), (''markets'', PList [PDict cheap_market])]]),
            (''pagination'', PDict [(''hasMore'', PBool False)])]"

definition timeout_exc :: exc where
  "timeout_exc = Exc None [PStr ''timed out''] ''timed out''"

definition gamma_env :: "unit env" where
  "gamma_env =
     \<lparr>respond = (\<lambda>q w. case q of
                   HttpGet t url ps \<Rightarrow>
                     if url = ''https://gamma-api.polymarket.com/public-search''
                     then (Inr search_body, w) else (Inl timeout_exc, w)
                 | _ \<Rightarrow> (Inl timeout_exc, w)),
      clock = (\<lambda>w. 0)\<rparr>"

text \<open>A world whose public search fails and whose CLOB catalog lists one market with an
  embedded NO token priced at 0.5.\<close>

definition clob_market :: pydict where
  "clob_market =
     [(''condition_id'', PStr ''0xabc''), (''question'', PStr ''X''),
      (''tokens'', PList [PDict [(''outcome'', PStr ''No''), (''price'', PFloat (1 / 2)),
                                 (''token_id'', PStr ''t1'')]])]"

definition clob_env :: "unit env" where
  "clob_env =
     \<lparr>respond = (\<lambda>q w. case q of
                   HttpGet t url ps \<Rightarrow>
                     if url = ''https://clob.polymarket.com/markets''
                     then (Inr (PList [PDict clob_market]), w) else (Inl timeout_exc, w)
                 | _ \<Rightarrow> (Inl timeout_exc, w)),
      clock = (\<lambda>w. 0)\<rparr>"





section \<open>Properties of the settings store\<close>

lemma dict_get_update_same: "dict_get (AList.update k v d) k = v"
  by (simp add: dict_get_def update_conv')

text \<open>
  Claim C10. For every chat id and every integer delta, the settings that
  \<open>increment_size_for_chat\<close> returns have \<open>maxOrderSize\<close> at least 1, and these settings
  are the ones persisted under the chat's key; the call does return whenever the stored
  size is an integer or the chat has no settings yet.
\<close>

theorem increment_size_floor:
  "(\<forall>nxt store'. increment_size_for_chat B cfg all_settings chat_id delta = Inr (nxt, store') \<longrightarrow>
      (\<exists>n. dict_get nxt ''maxOrderSize'' = PInt n \<and> 1 \<le> n) \<and>
      dict_get store' (str_of_int chat_id) = PDict nxt)
   \<and> (size_is_int cfg all_settings chat_id \<longrightarrow>
      (\<exists>nxt store'. increment_size_for_chat B cfg all_settings chat_id delta = Inr (nxt, store')))"
proof (intro conjI allI impI)
  fix nxt store'
  assume r: "increment_size_for_chat B cfg all_settings chat_id delta = Inr (nxt, store')"
  then obtain cur n where
    nxt: "nxt = AList.update ''maxOrderSize'' (PInt (max 1 (n + delta))) cur" and
    st: "store' = AList.update (str_of_int chat_id) (PDict nxt) all_settings"
    by (auto simp: increment_size_for_chat_def Let_def split: sum.splits pyval.splits)
  show "\<exists>n. dict_get nxt ''maxOrderSize'' = PInt n \<and> 1 \<le> n"
    unfolding nxt dict_get_update_same by simp
  show "dict_get store' (str_of_int chat_id) = PDict nxt"
    unfolding st dict_get_update_same by simp
next
  assume a: "size_is_int cfg all_settings chat_id"
  then obtain cur where
    cur: "py_or (dict_get all_settings (str_of_int chat_id)) (PDict (default_settings cfg)) = PDict cur"
    by (auto simp: size_is_int_def split: pyval.splits)
  from a cur have "map_of cur ''maxOrderSize'' = None \<or> (\<exists>i. map_of cur ''maxOrderSize'' = Some (PInt i))"
    by (auto simp: size_is_int_def split: option.splits pyval.splits)
  then obtain i where "dict_get_default cur ''maxOrderSize'' (PInt 1) = PInt i"
    by (auto simp: dict_get_default_def)
  with cur show "\<exists>nxt store'. increment_size_for_chat B cfg all_settings chat_id delta = Inr (nxt, store')"
    by (simp add: increment_size_for_chat_def Let_def py_get_default_def)
qed

theorem increment_size_floor_witness:
  "size_is_int example_config [] 7 \<and>
   (\<exists>nxt store'. increment_size_for_chat plain_builtins example_config [] 7 (- 500) = Inr (nxt, store')
      \<and> dict_get nxt ''maxOrderSize'' = PInt 1
      \<and> dict_get store' (str_of_int 7) = PDict nxt)"
proof -
  have h: "size_is_int example_config [] 7"
    by (simp add: size_is_int_def dict_get_def py_or_def default_settings_def)
  from increment_size_floor [of plain_builtins example_config "[]" 7 "- 500"] h
  obtain nxt store' where
    r: "increment_size_for_chat plain_builtins example_config [] 7 (- 500) = Inr (nxt, store')"
    and p: "dict_get store' (str_of_int 7) = PDict nxt"
    by blast
  from r have "dict_get nxt ''maxOrderSize'' = PInt 1"
    by (auto simp: increment_size_for_chat_def Let_def dict_get_def py_or_def default_settings_def
        py_get_default_def dict_get_default_def example_config_def)
  with h r p show ?thesis by blast
qed


section \<open>Properties of the active-market filter\<close>

text \<open>
  The rewrite that \<open>_is_active_market\<close> applies before parsing appends \<open>+00:00\<close> to
  every text that holds a minus sign and no plus sign. The date itself holds minus signs, so
  a timestamp with a negative offset gets a second offset and no longer parses.
\<close>

lemma parse_end_negative_offset:
  "fromisoformat iso_builtins ''2020-01-01T00:00:00-05:00'' = Some 1577854800000000 \<and>
   parse_end iso_builtins ''2020-01-01T00:00:00-05:00'' = None"
  by code_simp

text \<open>
  Claim C6 says that \<open>_is_active_market\<close> returns true exactly when the four flags allow
  it and the expiry is absent, unparsable or strictly in the future, and that an expiry one
  second in the past yields false. The record \<open>offset_market\<close> expires at
  2020-01-01T00:00:00-05:00, a timestamp that \<open>fromisoformat\<close> parses. One second after
  that instant the claim asks for false, and the code returns true: the rewrite has made
  the text unparsable, and \<open>return True  # Can't parse, assume active\<close> is taken.
\<close>

theorem is_active_market_accepts_expired:
  "fromisoformat iso_builtins ''2020-01-01T00:00:00-05:00'' = Some 1577854800000000 \<and>
   is_active_market iso_builtins (1577854800000000 + 1000000) offset_market \<and>
   \<not> spec_tradable iso_builtins (1577854800000000 + 1000000) offset_market"
  by code_simp

text \<open>
  Two more inputs at which the code and the stated condition differ. The empty record meets
  the stated condition, and the guard \<open>if not m: return False\<close> rejects it. A record that
  expires exactly at the evaluation time is not strictly in the future, and the code, which
  rejects only \<open>end < now\<close>, accepts it. One second later the code rejects it.
\<close>

lemma is_active_market_boundary_inputs:
  "\<not> is_active_market plain_builtins 0 [] \<and> spec_tradable plain_builtins 0 [] \<and>
   is_active_market iso_builtins 1893456000000000 expiring_market \<and>
   \<not> spec_tradable iso_builtins 1893456000000000 expiring_market \<and>
   \<not> is_active_market iso_builtins (1893456000000000 + 1000000) expiring_market"
  by code_simp

section \<open>Properties of the price deriver\<close>

text \<open>The fallback to \<open>outcomePrices\<close> accepts non-negative values only.\<close>

lemma outcome_prices_fallback_nonneg:
  "outcome_prices_fallback B m outcomes = Inr (Some p) \<Longrightarrow> 0 \<le> p"
  by (auto simp: outcome_prices_fallback_def Let_def split: sum.splits option.splits if_splits)

text \<open>
  Claim C2 says that \<open>_derive_no_bid\<close> never returns a negative number on any of its
  three paths. The code checks \<open>p >= 0\<close> on the \<open>outcomePrices\<close> path only: on the record
  with outcomes Yes, No, best bid 0.5 and best ask 1.5 the path \<open>1 - bestAsk\<close> returns
  \<open>-0.5\<close>.
\<close>

theorem derive_no_bid_negative:
  "derive_no_bid plain_builtins overpriced_market = Some (- 1 / 2)"
  by code_simp

section \<open>Properties of the opportunity aggregator\<close>

subsection \<open>Price bounds\<close>

text \<open>A record that either path builds has passed that path's price test.\<close>

lemma price_in_rangeI:
  "map_of opp ''noPrice'' = Some (PFloat p) \<Longrightarrow> 0 < p \<Longrightarrow> le_float p mp \<Longrightarrow> price_in_range mp opp"
  by (simp add: price_in_range_def dict_get_def)

lemma analyze_price:
  assumes "analyze_market_no B now m mp = Some opp"
  shows "price_in_range mp opp"
proof -
  from assms obtain p where p: "0 < p" "le_float p mp" and opp: "map_of opp ''noPrice'' = Some (PFloat p)"
    unfolding analyze_market_no_def
    by (auto split: if_split_asm option.split_asm)
  from opp p show ?thesis by (rule price_in_rangeI)
qed

lemma update_keeps_price:
  "k \<noteq> ''noPrice'' \<Longrightarrow> price_in_range mp (AList.update k v opp) = price_in_range mp opp"
  by (simp add: price_in_range_def dict_get_def update_conv')

text \<open>The primary path: every record it returns is in range, whatever the threshold.\<close>

lemma gamma_loop_prices:
  "\<forall>opp \<in> set (fst (gamma_loop E B cfg mp ms s)). price_in_range mp opp"
proof (induction ms arbitrary: s)
  case Nil
  show ?case by simp
next
  case (Cons m ms)
  show ?case
  proof (cases "analyze_market_no B (clock E (fst s)) m mp")
    case None
    with Cons show ?thesis by simp
  next
    case (Some opp)
    then have "price_in_range mp opp" by (rule analyze_price)
    with Some Cons show ?thesis
      by (simp add: Let_def update_keeps_price split: option.split)
  qed
qed

lemma gamma_path_prices:
  "\<forall>opp \<in> set (fst (gamma_path E B cfg mp s)). price_in_range mp opp"
  unfolding gamma_path_def Let_def by (simp add: gamma_loop_prices)

text \<open>The fallback path tests \<open>price > max_price\<close>, which is the negation of
  \<open>price <= max_price\<close> for a threshold that is a number only.\<close>

lemma clob_opportunity_price:
  assumes "clob_opportunity m price tok (Num t) = Some opp"
  shows "price_in_range (Num t) opp"
proof -
  from assms obtain p where p: "0 < p" "le_float p (Num t)" and opp: "map_of opp ''noPrice'' = Some (PFloat p)"
    unfolding clob_opportunity_def
    by (auto split: if_split_asm option.split_asm)
  from opp p show ?thesis by (rule price_in_rangeI)
qed

lemma clob_tokens_case_price:
  "clob_tokens_case B m tokens (Num t) = Inr (Some opp) \<Longrightarrow> price_in_range (Num t) opp"
  unfolding clob_tokens_case_def
  by (auto split: sum.split_asm option.split_asm if_split_asm dest: clob_opportunity_price)

lemma clob_outcomes_case_price:
  "clob_outcomes_case E B cfg m outcomes (Num t) s = (Inr (Some opp), s') \<Longrightarrow> price_in_range (Num t) opp"
  unfolding clob_outcomes_case_def Let_def
  by (auto split: sum.split_asm dest: clob_opportunity_price)

lemma clob_record_price:
  "clob_record E B cfg (Num t) mv s = (Inr (Some opp), s') \<Longrightarrow> price_in_range (Num t) opp"
  unfolding clob_record_def Let_def
  by (auto split: pyval.split_asm if_split_asm
           dest: clob_opportunity_price clob_tokens_case_price clob_outcomes_case_price)

lemma clob_loop_prices:
  "clob_loop E B cfg (Num t) mvs s = (Inr opps, s') \<Longrightarrow> \<forall>opp \<in> set opps. price_in_range (Num t) opp"
proof (induction mvs arbitrary: s opps s')
  case Nil
  then show ?case by simp
next
  case (Cons mv mvs)
  obtain r1 s1 where r1: "clob_record E B cfg (Num t) mv s = (r1, s1)"
    by (cases "clob_record E B cfg (Num t) mv s")
  obtain r2 s2 where r2: "clob_loop E B cfg (Num t) mvs s1 = (r2, s2)"
    by (cases "clob_loop E B cfg (Num t) mvs s1")
  from Cons.prems r1 r2 obtain r rest where
    rr: "r1 = Inr r" "r2 = Inr rest" "opps = (case r of None \<Rightarrow> [] | Some opp \<Rightarrow> [opp]) @ rest"
    by (auto split: sum.split_asm)
  from Cons.IH r2 rr have rest: "\<forall>opp \<in> set rest. price_in_range (Num t) opp" by blast
  show ?case
  proof (cases r)
    case None
    with rr rest show ?thesis by simp
  next
    case (Some opp)
    with r1 rr have "price_in_range (Num t) opp" by (auto dest: clob_record_price)
    with Some rr rest show ?thesis by simp
  qed
qed

lemma clob_fallback_prices:
  "\<forall>opp \<in> set (fst (clob_fallback E B cfg (Num t) s)). price_in_range (Num t) opp"
  unfolding clob_fallback_def
  by (auto split: prod.split sum.split dest: clob_loop_prices)

text \<open>With a threshold that is a number, every record that \<open>find_eligible_markets\<close>
  returns, on either path and whatever the catalogs answer, is in range.\<close>

lemma find_eligible_markets_numeric_threshold:
  "\<forall>opp \<in> set (fst (find_eligible_markets E B cfg (Num t) s)). price_in_range (Num t) opp"
proof -
  let ?r = "gamma_path E B cfg (Num t) s"
  show ?thesis
  proof (cases "fst ?r = []")
    case True
    then show ?thesis
      unfolding find_eligible_markets_def Let_def by (simp add: clob_fallback_prices)
  next
    case False
    then show ?thesis
      unfolding find_eligible_markets_def Let_def by (simp add: gamma_path_prices)
  qed
qed

text \<open>
  Claim C1 says that every record returned by \<open>find_eligible_markets(max_price)\<close>, on the
  primary path and on the fallback path, has \<open>0 < noPrice <= max_price\<close>. The primary
  path keeps a record when \<open>no_price <= max_price\<close> holds; the fallback path drops a record
  when \<open>price > max_price\<close> holds. With the threshold NaN both comparisons are false: the
  primary path keeps nothing (\<open>gamma_path_prices\<close>), and the fallback path returns the
  market priced at 0.5, for which \<open>0.5 <= max_price\<close> is false.
\<close>

theorem find_eligible_markets_nan_threshold:
  "map (\<lambda>opp. dict_get opp ''noPrice'')
      (fst (find_eligible_markets clob_env plain_builtins example_config NaN ((), []))) = [PFloat (1 / 2)] \<and>
   map (price_in_range NaN)
      (fst (find_eligible_markets clob_env plain_builtins example_config NaN ((), []))) = [False] \<and>
   fst (gamma_path gamma_env plain_builtins example_config NaN ((), [])) = []"
  by code_simp


section \<open>Properties of the token resolver\<close>

text \<open>Each lookup makes exactly one request, and the cascade makes the requests of a
  prefix of its list: all of them when it finds nothing, and at least one when it finds
  an id.\<close>

lemma lookup_trace: "snd (snd (lookup E q scan s)) = snd s @ [q]"
  unfolding lookup_def perform_def
  by (cases "respond E q (fst s)"; cases "fst (respond E q (fst s))"; simp split: sum.split option.split)






lemma cascade_cons:
  "try_in_order E ((q, scan) # rest) s =
     (case fst (lookup E q scan s) of
        Some tid \<Rightarrow> (Some tid, snd (lookup E q scan s))
      | None \<Rightarrow> try_in_order E rest (snd (lookup E q scan s)))"
  by (cases "lookup E q scan s"; cases "fst (lookup E q scan s)"; simp)

lemma cascade_single: "try_in_order E [(q, scan)] s = lookup E q scan s"
  by (cases "lookup E q scan s"; cases "fst (lookup E q scan s)"; simp)

lemma resolve_is_cascade:
  "resolve_no_token_id E B cfg market s = try_in_order E (strategies B cfg market) s"
proof (cases "gamma_base cfg = []")
  case True
  then show ?thesis by (simp add: resolve_no_token_id_def strategies_def)
next
  case False
  let ?ev = "py_or (dict_get market ''eventSlug'') (dict_get market ''event_slug'')"
  let ?cond = "py_or (dict_get market ''condition_id'') (dict_get market ''conditionId'')"
  show ?thesis
  proof (cases "truthy ?ev")
    case ev: True
    show ?thesis
    proof (cases "truthy (dict_get market ''slug'')")
      case sl: True
      show ?thesis
      proof (cases "truthy ?cond")
        case True
        with False ev sl show ?thesis
          by (simp add: resolve_no_token_id_def strategies_def cascade_single cascade_cons Let_def
                   prod_eq_iff del: try_in_order.simps(2) split: option.split)
      next
        case c: False
        with False ev sl show ?thesis
          by (simp add: resolve_no_token_id_def strategies_def cascade_single cascade_cons Let_def
                   prod_eq_iff del: try_in_order.simps(2) split: option.split)
      qed
    next
      case sl: False
      show ?thesis
      proof (cases "truthy ?cond")
        case True
        with False ev sl show ?thesis
          by (simp add: resolve_no_token_id_def strategies_def cascade_single cascade_cons Let_def
                   prod_eq_iff del: try_in_order.simps(2) split: option.split)
      next
        case c: False
        with False ev sl show ?thesis
          by (simp add: resolve_no_token_id_def strategies_def cascade_single cascade_cons Let_def
                   prod_eq_iff del: try_in_order.simps(2) split: option.split)
      qed
    qed
  next
    case ev: False
    show ?thesis
    proof (cases "truthy (dict_get market ''slug'')")
      case sl: True
      show ?thesis
      proof (cases "truthy ?cond")
        case True
        with False ev sl show ?thesis
          by (simp add: resolve_no_token_id_def strategies_def cascade_single cascade_cons Let_def
                   prod_eq_iff del: try_in_order.simps(2) split: option.split)
      next
        case c: False
        with False ev sl show ?thesis
          by (simp add: resolve_no_token_id_def strategies_def cascade_single cascade_cons Let_def
                   prod_eq_iff del: try_in_order.simps(2) split: option.split)
      qed
    next
      case sl: False
      show ?thesis
      proof (cases "truthy ?cond")
        case True
        with False ev sl show ?thesis
          by (simp add: resolve_no_token_id_def strategies_def cascade_single cascade_cons Let_def
                   prod_eq_iff del: try_in_order.simps(2) split: option.split)
      next
        case c: False
        with False ev sl show ?thesis
          by (simp add: resolve_no_token_id_def strategies_def cascade_single cascade_cons Let_def
                   prod_eq_iff del: try_in_order.simps(2) split: option.split)
      qed
    qed
  qed
qed






section \<open>Properties of the source fallback\<close>

text \<open>No function of the primary path, and no token lookup, makes the request of
  \<open>fetch_markets\<close>: their requests carry other query parameters.\<close>

lemma quiet_iff: "quiet Q s s' \<longleftrightarrow> (\<exists>new. snd s' = snd s @ new \<and> Q \<notin> set new)"
proof
  assume q: "quiet Q s s'"
  then have "snd s' = snd s @ drop (length (snd s)) (snd s')"
    unfolding quiet_def by (metis append_take_drop_id)
  moreover from q have "Q \<notin> set (drop (length (snd s)) (snd s'))"
    unfolding quiet_def by (simp add: count_list_0_iff)
  ultimately show "\<exists>new. snd s' = snd s @ new \<and> Q \<notin> set new" by blast
next
  assume "\<exists>new. snd s' = snd s @ new \<and> Q \<notin> set new"
  then show "quiet Q s s'" unfolding quiet_def by (auto simp: count_list_0_iff)
qed

lemma quiet_refl: "quiet Q s s"
  by (simp add: quiet_def)

lemma quiet_trans: "quiet Q s s1 \<Longrightarrow> quiet Q s1 s2 \<Longrightarrow> quiet Q s s2"
  unfolding quiet_iff by auto

lemma perform_trace: "snd (snd (perform E q s)) = snd s @ [q]"
  by (cases "respond E q (fst s)") (simp add: perform_def)

lemma quiet_perform: "q \<noteq> Q \<Longrightarrow> quiet Q s (snd (perform E q s))"
  unfolding quiet_iff perform_trace by simp

lemma quiet_lookup: "q \<noteq> Q \<Longrightarrow> quiet Q s (snd (lookup E q scan s))"
  unfolding quiet_iff lookup_trace by simp


lemma search_params_not_catalog: "HttpGet t url (search_params qy pg lpt) \<noteq> HttpGet t' u [(''limit'', PInt 1000)]"
  by (simp add: search_params_def)

lemma quiet_search_attempts:
  "quiet (HttpGet t' u [(''limit'', PInt 1000)]) s
     (snd (search_attempts E url (search_params qy pg lpt) ts s))"
proof (induction ts arbitrary: s)
  case Nil
  show ?case by (simp add: quiet_refl)
next
  case (Cons t ts)
  let ?Q = "HttpGet t' u [(''limit'', PInt 1000)]"
  let ?p = "perform E (HttpGet t url (search_params qy pg lpt)) s"
  have p: "quiet ?Q s (snd ?p)"
    by (rule quiet_perform) (rule search_params_not_catalog)
  have r: "quiet ?Q (snd ?p) (snd (search_attempts E url (search_params qy pg lpt) ts (snd ?p)))"
    by (rule Cons.IH)
  from p r have pr: "quiet ?Q s (snd (search_attempts E url (search_params qy pg lpt) ts (snd ?p)))"
    by (rule quiet_trans)
  obtain a s1 where "?p = (a, s1)" by (cases ?p) auto
  with p pr show ?case by (simp split: sum.split)
qed

lemma quiet_fetch_page:
  "quiet (HttpGet t' u [(''limit'', PInt 1000)]) s (snd (fetch_public_search_page E cfg qy pg lpt s))"
  unfolding fetch_public_search_page_def by (rule quiet_search_attempts)

lemma quiet_fetch_all_loop:
  "quiet (HttpGet t' u [(''limit'', PInt 1000)]) s
     (snd (fetch_all_loop E cfg qy lpt mx pg hm acc s))"
proof (induction E cfg qy lpt mx pg hm acc s rule: fetch_all_loop.induct)
  case (1 E cfg query page_limit max_pages page has_more all_markets s)
  let ?Q = "HttpGet t' u [(''limit'', PInt 1000)]"
  show ?case
  proof (cases "has_more \<and> page \<le> max_pages")
    case True
    let ?r = "fetch_public_search_page E cfg query page page_limit s"
    have a: "quiet ?Q s (snd ?r)" by (rule quiet_fetch_page)
    from True have b: "quiet ?Q (snd ?r)
       (snd (fetch_all_loop E cfg query page_limit max_pages (page + 1) (snd (fst ?r))
              (all_markets @ fst (fst ?r)) (snd ?r)))"
      by (intro "1.IH") simp_all
    from a b have "quiet ?Q s
       (snd (fetch_all_loop E cfg query page_limit max_pages (page + 1) (snd (fst ?r))
              (all_markets @ fst (fst ?r)) (snd ?r)))"
      by (rule quiet_trans)
    with True show ?thesis
      by (subst fetch_all_loop.simps) (simp add: Let_def)
  next
    case False
    then show ?thesis
      by (subst fetch_all_loop.simps) (auto simp: quiet_refl)
  qed
qed

lemma quiet_fetch_all:
  "quiet (HttpGet t' u [(''limit'', PInt 1000)]) s (snd (fetch_all_markets_public_search E cfg s))"
  unfolding fetch_all_markets_public_search_def by (rule quiet_fetch_all_loop)

lemma quiet_try_in_order:
  "\<forall>x \<in> set qs. fst x \<noteq> Q \<Longrightarrow> quiet Q s (snd (try_in_order E qs s))"
proof (induction qs arbitrary: s)
  case Nil
  show ?case by (simp add: quiet_refl)
next
  case (Cons q qs)
  let ?l = "lookup E (fst q) (snd q) s"
  from Cons.prems have a: "quiet Q s (snd ?l)" by (intro quiet_lookup) simp
  from Cons.prems have "quiet Q (snd ?l) (snd (try_in_order E qs (snd ?l)))"
    by (intro Cons.IH) simp
  with a have b: "quiet Q s (snd (try_in_order E qs (snd ?l)))" by (rule quiet_trans)
  obtain r s1 where "?l = (r, s1)" by (cases ?l) auto
  with a b show ?case by (cases r) simp_all
qed

lemma strategies_not_catalog:
  "\<forall>x \<in> set (strategies B cfg market). fst x \<noteq> HttpGet t' u [(''limit'', PInt 1000)]"
  by (auto simp: strategies_def Let_def split: if_split_asm)

lemma quiet_resolve:
  "quiet (HttpGet t' u [(''limit'', PInt 1000)]) s (snd (resolve_no_token_id E B cfg market s))"
  unfolding resolve_is_cascade by (rule quiet_try_in_order) (rule strategies_not_catalog)

lemma quiet_gamma_loop:
  "quiet (HttpGet t' u [(''limit'', PInt 1000)]) s (snd (gamma_loop E B cfg mp ms s))"
proof (induction ms arbitrary: s)
  case Nil
  show ?case by (simp add: quiet_refl)
next
  case (Cons m ms)
  let ?Q = "HttpGet t' u [(''limit'', PInt 1000)]"
  show ?case
  proof (cases "analyze_market_no B (clock E (fst s)) m mp")
    case None
    with Cons.IH [of s] show ?thesis by simp
  next
    case (Some opp)
    let ?r = "resolve_no_token_id E B cfg m s"
    have "quiet ?Q s (snd ?r)" by (rule quiet_resolve)
    moreover have "quiet ?Q (snd ?r) (snd (gamma_loop E B cfg mp ms (snd ?r)))" by (rule Cons.IH)
    ultimately have "quiet ?Q s (snd (gamma_loop E B cfg mp ms (snd ?r)))" by (rule quiet_trans)
    with Some show ?thesis by (simp add: Let_def)
  qed
qed

lemma quiet_gamma_path:
  "quiet (HttpGet t' u [(''limit'', PInt 1000)]) s (snd (gamma_path E B cfg mp s))"
proof -
  let ?Q = "HttpGet t' u [(''limit'', PInt 1000)]"
  let ?r = "fetch_all_markets_public_search E cfg s"
  have a: "quiet ?Q s (snd ?r)" by (rule quiet_fetch_all)
  have "quiet ?Q (snd ?r) (snd (gamma_loop E B cfg mp (fst ?r) (snd ?r)))" by (rule quiet_gamma_loop)
  with a have "quiet ?Q s (snd (gamma_loop E B cfg mp (fst ?r) (snd ?r)))" by (rule quiet_trans)
  with a show ?thesis by (simp add: gamma_path_def Let_def)
qed


lemma quiet_clob_outcomes_case:
  "quiet (HttpGet t' u [(''limit'', PInt 1000)]) s (snd (clob_outcomes_case E B cfg m outcomes mp s))"
  unfolding clob_outcomes_case_def Let_def
  by (simp add: quiet_refl quiet_resolve split: sum.split)

lemma quiet_clob_record:
  "quiet (HttpGet t' u [(''limit'', PInt 1000)]) s (snd (clob_record E B cfg mp mv s))"
  unfolding clob_record_def Let_def
  by (simp add: quiet_refl quiet_clob_outcomes_case split: pyval.split)

lemma quiet_clob_loop:
  "quiet (HttpGet t' u [(''limit'', PInt 1000)]) s (snd (clob_loop E B cfg mp mvs s))"
proof (induction mvs arbitrary: s)
  case Nil
  show ?case by (simp add: quiet_refl)
next
  case (Cons mv mvs)
  let ?Q = "HttpGet t' u [(''limit'', PInt 1000)]"
  let ?r = "clob_record E B cfg mp mv s"
  have a: "quiet ?Q s (snd ?r)" by (rule quiet_clob_record)
  have "quiet ?Q (snd ?r) (snd (clob_loop E B cfg mp mvs (snd ?r)))" by (rule Cons.IH)
  with a have b: "quiet ?Q s (snd (clob_loop E B cfg mp mvs (snd ?r)))" by (rule quiet_trans)
  obtain r1 s1 where r: "?r = (r1, s1)" by (cases ?r) auto
  obtain r2 s2 where l: "clob_loop E B cfg mp mvs s1 = (r2, s2)" by (cases "clob_loop E B cfg mp mvs s1") auto
  from a b r l show ?case by (simp split: sum.split)
qed

text \<open>The fallback path makes the catalog request first and exactly once.\<close>

lemma clob_fallback_trace:
  "\<exists>new. snd (snd (clob_fallback E B cfg mp s)) = snd s @ clob_catalog_request cfg # new \<and>
         clob_catalog_request cfg \<notin> set new"
proof -
  let ?Q = "clob_catalog_request cfg"
  let ?p = "perform E ?Q s"
  obtain a s1 where p: "?p = (a, s1)" by (cases ?p) auto
  with perform_trace [of E ?Q s] have t: "snd s1 = snd s @ [?Q]" by simp
  have f: "snd (fetch_markets E cfg s) = s1"
    using p unfolding fetch_markets_def clob_catalog_request_def
    by (simp split: sum.split pyval.split option.split)
  have q: "\<And>mvs. quiet ?Q s1 (snd (clob_loop E B cfg mp mvs s1))"
    unfolding clob_catalog_request_def by (rule quiet_clob_loop)
  have "quiet ?Q s1 (snd (clob_fallback E B cfg mp s))"
  proof -
    obtain r s1' where Pair: "fetch_markets E cfg s = (r, s1')" by (cases "fetch_markets E cfg s") auto
    with f have [simp]: "s1' = s1" by simp
    show ?thesis
    proof (cases r)
      case (Inl e)
      with Pair show ?thesis by (simp add: clob_fallback_def quiet_refl)
    next
      case (Inr ms)
      show ?thesis
      proof (cases "py_len ms")
        case (Inl e)
        with Pair Inr show ?thesis by (simp add: clob_fallback_def quiet_refl)
      next
        case len: (Inr n)
        show ?thesis
        proof (cases "py_iter ms")
          case (Inl e)
          with Pair Inr len show ?thesis by (simp add: clob_fallback_def quiet_refl)
        next
          case it: (Inr mvs)
          obtain r2 s2 where l: "clob_loop E B cfg mp mvs s1 = (r2, s2)"
            by (cases "clob_loop E B cfg mp mvs s1") auto
          with q [of mvs] have "quiet ?Q s1 s2" by simp
          with Pair Inr len it l show ?thesis
            by (simp add: clob_fallback_def split: sum.split)
        qed
      qed
    qed
  qed
  then obtain new where "snd (snd (clob_fallback E B cfg mp s)) = snd s1 @ new" "?Q \<notin> set new"
    unfolding quiet_iff by blast
  with t show ?thesis by simp
qed

text \<open>
  Claim C3: in one call of \<open>find_eligible_markets\<close> the CLOB catalog is fetched exactly
  once when the primary path has produced no opportunity, and not at all when it has
  produced one, in which case the call returns what the primary path produced. The call
  only adds requests to those made before it, and among the added ones the request of
  \<open>fetch_markets\<close> occurs once or never, according to the result of the primary path.
\<close>

theorem clob_fallback_iff_primary_empty:
  "take (length (snd s)) (snd (snd (find_eligible_markets E B cfg max_price s))) = snd s \<and>
   count_list (drop (length (snd s)) (snd (snd (find_eligible_markets E B cfg max_price s))))
      (clob_catalog_request cfg) =
     (if fst (gamma_path E B cfg max_price s) = [] then 1 else 0) \<and>
   (fst (gamma_path E B cfg max_price s) \<noteq> [] \<longrightarrow>
      find_eligible_markets E B cfg max_price s = gamma_path E B cfg max_price s)"
proof -
  let ?Q = "clob_catalog_request cfg"
  let ?g = "gamma_path E B cfg max_price s"
  have "quiet ?Q s (snd ?g)"
    unfolding clob_catalog_request_def by (rule quiet_gamma_path)
  then obtain new0 where g: "snd (snd ?g) = snd s @ new0" "?Q \<notin> set new0"
    unfolding quiet_iff by blast
  show ?thesis
  proof (cases "fst ?g = []")
    case True
    obtain new where "snd (snd (clob_fallback E B cfg max_price (snd ?g))) = snd (snd ?g) @ ?Q # new"
      "?Q \<notin> set new"
      using clob_fallback_trace [of E B cfg max_price "snd ?g"] by blast
    with g True show ?thesis
      by (simp add: find_eligible_markets_def Let_def count_list_0_iff)
  next
    case False
    with g show ?thesis
      by (simp add: find_eligible_markets_def Let_def count_list_0_iff)
  qed
qed

theorem clob_fallback_iff_primary_empty_witness:
  "fst (gamma_path gamma_env plain_builtins example_config (Num (1 / 100)) ((), [])) \<noteq> [] \<and>
   count_list (snd (snd (find_eligible_markets gamma_env plain_builtins example_config (Num (1 / 100)) ((), []))))
      (clob_catalog_request example_config) = 0 \<and>
   fst (gamma_path clob_env plain_builtins example_config (Num (1 / 100)) ((), [])) = [] \<and>
   count_list (snd (snd (find_eligible_markets clob_env plain_builtins example_config (Num (1 / 100)) ((), []))))
      (clob_catalog_request example_config) = 1"
proof -
  have a: "fst (gamma_path gamma_env plain_builtins example_config (Num (1 / 100)) ((), [])) \<noteq> []"
    by code_simp
  have b: "fst (gamma_path clob_env plain_builtins example_config (Num (1 / 100)) ((), [])) = []"
    by code_simp
  from clob_fallback_iff_primary_empty [of "((), [])" gamma_env plain_builtins example_config "Num (1 / 100)"]
  have "count_list (snd (snd (find_eligible_markets gamma_env plain_builtins example_config (Num (1 / 100)) ((), []))))
      (clob_catalog_request example_config) =
     (if fst (gamma_path gamma_env plain_builtins example_config (Num (1 / 100)) ((), [])) = [] then 1 else 0)"
    by simp
  with a have c: "count_list (snd (snd (find_eligible_markets gamma_env plain_builtins example_config (Num (1 / 100)) ((), []))))
      (clob_catalog_request example_config) = 0"
    by simp
  from clob_fallback_iff_primary_empty [of "((), [])" clob_env plain_builtins example_config "Num (1 / 100)"]
  have "count_list (snd (snd (find_eligible_markets clob_env plain_builtins example_config (Num (1 / 100)) ((), []))))
      (clob_catalog_request example_config) =
     (if fst (gamma_path clob_env plain_builtins example_config (Num (1 / 100)) ((), [])) = [] then 1 else 0)"
    by simp
  with b have d: "count_list (snd (snd (find_eligible_markets clob_env plain_builtins example_config (Num (1 / 100)) ((), []))))
      (clob_catalog_request example_config) = 1"
    by simp
  from a b c d show ?thesis by (intro conjI)
qed

end
